theory Spec2Isabelle
  imports Main
begin

section \<open>The data of the transport mixin\<close>

text \<open>
  The module \<^verbatim>\<open>currencycloud/http.py\<close> defines the class \<^verbatim>\<open>Http\<close>: two public methods,
  \<^verbatim>\<open>get\<close> and \<^verbatim>\<open>post\<close>, over five private helpers and two class-level tables.  The object
  holds a configuration (\<^verbatim>\<open>self.config\<close>) and that configuration's session
  (\<^verbatim>\<open>self.session\<close>).  Everything the methods read or change is put into one state record
  that is passed through the calls; what they raise is a value of a sum type.

  A Python value (a token, the value of a parameter, a decoded body) is an element of the
  type variable \<open>'v\<close>.  A dictionary with string keys is a map.
\<close>

type_synonym 'v dict = "string \<Rightarrow> 'v option"

text \<open>
  The caller's parameter dictionary is shared with the caller and updated in place, so
  dictionaries live in a store and are passed around as references.  \<open>None\<close> is Python's
  \<^verbatim>\<open>None\<close>.
\<close>

type_synonym ref = nat

text \<open>
  Modelled from the spec: the constants \<^verbatim>\<open>Config.ENV_PRODUCTION\<close>,
  \<^verbatim>\<open>Config.ENV_DEMONSTRATION\<close> and \<^verbatim>\<open>Config.ENV_UAT\<close> of \<^verbatim>\<open>config.py\<close>, which is not among
  the sources.  The spec calls them a fixed enumeration (production, demonstration, UAT),
  so they are three distinct values; \<open>ENV_OTHER x\<close> is any other value that
  \<^verbatim>\<open>config.environment\<close> may hold.
\<close>

datatype environment = ENV_PRODUCTION | ENV_DEMONSTRATION | ENV_UAT | ENV_OTHER string

text \<open>
  A response of the session: the code reads \<^verbatim>\<open>response.status_code\<close> and calls
  \<^verbatim>\<open>response.json()\<close>, whose result is the field \<open>json\<close>.
\<close>

record 'v response =
  status_code :: int
  json :: 'v

text \<open>
  The classes of the module \<^verbatim>\<open>errors\<close> that the table \<^verbatim>\<open>HTTP_CODE_TO_ERROR\<close> and its default
  name.
\<close>

datatype error_kind =
    BadRequestError
  | AuthenticationError
  | ForbiddenError
  | NotFoundError
  | TooManyRequestsError
  | InternalApplicationError
  | ApiError

text \<open>
  What a call can raise.  \<open>RuntimeError e\<close> is
  \<^verbatim>\<open>RuntimeError('%s is not a valid environment name' % e)\<close>.  \<open>HttpError k verb url params r\<close>
  is the instance \<^verbatim>\<open>klass(verb, url, params, response)\<close> of the error class \<open>k\<close>, with the
  four arguments of its constructor; \<open>params\<close> is the reference the method holds, not a
  copy.  \<open>UnboundLocalError\<close> is what \<^verbatim>\<open>return response\<close> after the loop would raise if the
  loop body had never run.
\<close>

datatype 'v exn =
    RuntimeError environment
  | UnboundLocalError
  | HttpError (err_kind: error_kind) (err_verb: string) (err_url: string)
      (err_params: "ref option") (err_response: "'v response")

text \<open>
  The calls a method makes to its collaborators are logged, in order: a request through
  the session, with the method of the session that was called, the URL, the headers, the
  contents of the parameter dictionary at that moment and the response received; and a
  call of \<^verbatim>\<open>config.reauthenticate()\<close>, with the token the configuration holds after it.
\<close>

datatype http_method = GET | POST

datatype 'v event =
    Request http_method string "'v dict" "'v dict option" "'v response"
  | Reauthenticate 'v

text \<open>
  The state: the three fields of the configuration the module reads, the store of
  dictionaries with the next free reference, the state \<open>'w\<close> of everything behind the
  session and the configuration (the server, the credentials), and the log of calls.
\<close>

record ('v, 'w) state =
  environment :: environment
  auth_token :: 'v
  on_behalf_of :: "'v option"
  heap :: "ref \<Rightarrow> 'v dict"
  next_ref :: ref
  world :: 'w
  calls :: "'v event list"

text \<open>
  The collaborators, which are not part of the module: \<^verbatim>\<open>session.get\<close> and \<^verbatim>\<open>session.post\<close>
  take the URL, the headers and the parameters and return a response;
  \<^verbatim>\<open>config.reauthenticate()\<close> replaces the token.  Each may depend on and change the
  outside state \<open>'w\<close>; the session changes neither the configuration nor the caller's
  dictionary.  They are parameters of the model, and they are taken to return: an
  exception raised inside a collaborator is outside this development.
\<close>

record ('v, 'w) collaborators =
  session_get :: "string \<Rightarrow> 'v dict \<Rightarrow> 'v dict option \<Rightarrow> 'w \<Rightarrow> 'v response \<times> 'w"
  session_post :: "string \<Rightarrow> 'v dict \<Rightarrow> 'v dict option \<Rightarrow> 'w \<Rightarrow> 'v response \<times> 'w"
  reauthenticate :: "'v \<Rightarrow> 'w \<Rightarrow> 'v \<times> 'w"

section \<open>Calls of the collaborators\<close>

definition session_send ::
  "('v, 'w) collaborators \<Rightarrow> http_method \<Rightarrow>
   string \<Rightarrow> 'v dict \<Rightarrow> 'v dict option \<Rightarrow> 'w \<Rightarrow> 'v response \<times> 'w" where
  "session_send C m = (case m of GET \<Rightarrow> session_get C | POST \<Rightarrow> session_post C)"

text \<open>
  \<^verbatim>\<open>self.session.get(url, headers=headers, params=data)\<close> and
  \<^verbatim>\<open>self.session.post(url, headers=headers, data=data)\<close>: the session reads the dictionary
  behind \<open>data\<close>, answers, and the call is logged.
\<close>

definition session_request ::
  "('v, 'w) collaborators \<Rightarrow> http_method \<Rightarrow> string \<Rightarrow> 'v dict \<Rightarrow> ref option \<Rightarrow>
   ('v, 'w) state \<Rightarrow> 'v response \<times> ('v, 'w) state" where
  "session_request C m url headers data s =
     (let params = map_option (heap s) data;
          (response, w) = session_send C m url headers params (world s)
      in (response, s\<lparr>world := w, calls := calls s @ [Request m url headers params response]\<rparr>))"

text \<open>\<^verbatim>\<open>self.config.reauthenticate()\<close>: the token is replaced, and the call is logged.\<close>

definition config_reauthenticate ::
  "('v, 'w) collaborators \<Rightarrow> ('v, 'w) state \<Rightarrow> ('v, 'w) state" where
  "config_reauthenticate C s =
     (let (token, w) = reauthenticate C (auth_token s) (world s)
      in s\<lparr>auth_token := token, world := w, calls := calls s @ [Reauthenticate token]\<rparr>)"

section \<open>The helpers of the class\<close>

definition ENVIRONMENT_URLS :: "environment \<Rightarrow> string option" where
  "ENVIRONMENT_URLS =
     [ENV_PRODUCTION \<mapsto> ''https://api.thecurrencycloud.com'',
      ENV_DEMONSTRATION \<mapsto> ''https://devapi.thecurrencycloud.com'',
      ENV_UAT \<mapsto> ''https://api-uat1.ccycloud.com'']"

definition environment_url :: "('v, 'w) state \<Rightarrow> 'v exn + string" where
  "environment_url s =
     (case ENVIRONMENT_URLS (environment s) of
        None \<Rightarrow> Inl (RuntimeError (environment s))
      | Some base \<Rightarrow> Inr base)"

definition build_url :: "('v, 'w) state \<Rightarrow> string \<Rightarrow> 'v exn + string" where
  "build_url s endpoint =
     (case environment_url s of
        Inl e \<Rightarrow> Inl e
      | Inr base \<Rightarrow> Inr (base @ endpoint))"

text \<open>\<^verbatim>\<open>{}\<close>: a new, empty dictionary in the store.\<close>

definition new_dict :: "('v, 'w) state \<Rightarrow> ref \<times> ('v, 'w) state" where
  "new_dict s =
     (next_ref s, s\<lparr>heap := (heap s)(next_ref s := Map.empty), next_ref := Suc (next_ref s)\<rparr>)"

definition handle_on_behalf_of ::
  "ref option \<Rightarrow> ('v, 'w) state \<Rightarrow> ref option \<times> ('v, 'w) state" where
  "handle_on_behalf_of data s =
     (case on_behalf_of s of
        None \<Rightarrow> (data, s)
      | Some obo \<Rightarrow>
          (let (r, s1) = (case data of None \<Rightarrow> new_dict s | Some r \<Rightarrow> (r, s))
           in if heap s1 r ''on_behalf_of'' = None
              then (Some r, s1\<lparr>heap := (heap s1)(r := (heap s1 r)(''on_behalf_of'' \<mapsto> obo))\<rparr>)
              else (Some r, s1)))"

definition build_headers :: "('v, 'w) state \<Rightarrow> bool \<Rightarrow> 'v dict" where
  "build_headers s authenticated =
     (if authenticated then [''X-Auth-Token'' \<mapsto> auth_token s] else Map.empty)"

definition HTTP_CODE_TO_ERROR :: "int \<Rightarrow> error_kind option" where
  "HTTP_CODE_TO_ERROR =
     [400 \<mapsto> BadRequestError,
      401 \<mapsto> AuthenticationError,
      403 \<mapsto> ForbiddenError,
      404 \<mapsto> NotFoundError,
      429 \<mapsto> TooManyRequestsError,
      500 \<mapsto> InternalApplicationError]"

text \<open>
  \<^verbatim>\<open>int(response.status_code / 100) == 2\<close>: on an integer status, the quotient is 2
  exactly from 200 to 299, whether \<^verbatim>\<open>/\<close> floors (Python 2, which the module's
  \<^verbatim>\<open>import errors\<close> needs) or divides exactly and \<^verbatim>\<open>int\<close> truncates.
\<close>

definition handle_errors ::
  "string \<Rightarrow> string \<Rightarrow> ref option \<Rightarrow> 'v response \<Rightarrow> 'v exn + 'v" where
  "handle_errors verb url params response =
     (if status_code response div 100 = 2 then Inr (json response)
      else
        (let klass = (case HTTP_CODE_TO_ERROR (status_code response) of
                        None \<Rightarrow> ApiError
                      | Some k \<Rightarrow> k)
         in Inl (HttpError klass verb url params response)))"

text \<open>
  The loop \<^verbatim>\<open>while retry_count:\<close> of \<^verbatim>\<open>__handle_authentication_errors\<close>, by recursion on
  \<open>retry_count\<close>.  The local variables \<open>headers\<close> and \<open>response\<close> are arguments;
  \<open>response\<close> is \<open>None\<close> while it is unbound.
\<close>

fun retry_loop ::
  "('v, 'w) collaborators \<Rightarrow>
   (string \<Rightarrow> 'v dict \<Rightarrow> ref option \<Rightarrow> ('v, 'w) state \<Rightarrow> 'v response \<times> ('v, 'w) state) \<Rightarrow>
   bool \<Rightarrow> string \<Rightarrow> ref option \<Rightarrow> bool \<Rightarrow>
   nat \<Rightarrow> 'v dict \<Rightarrow> 'v response option \<Rightarrow> ('v, 'w) state \<Rightarrow>
   ('v exn + 'v response) \<times> ('v, 'w) state" where
  "retry_loop C execute_request retry url data authenticated 0 headers response s =
     (case response of
        None \<Rightarrow> (Inl UnboundLocalError, s)
      | Some r \<Rightarrow> (Inr r, s))"
| "retry_loop C execute_request retry url data authenticated (Suc retry_count) headers response s =
     (let (response', s1) = execute_request url headers data s
      in if status_code response' \<noteq> 401 then (Inr response', s1)
         else if retry
           then (let s2 = config_reauthenticate C s1;
                     headers' = build_headers s2 authenticated
                 in retry_loop C execute_request retry url data authenticated
                      retry_count headers' (Some response') s2)
           else retry_loop C execute_request retry url data authenticated
                  retry_count headers (Some response') s1)"

definition handle_authentication_errors ::
  "('v, 'w) collaborators \<Rightarrow>
   (string \<Rightarrow> 'v dict \<Rightarrow> ref option \<Rightarrow> ('v, 'w) state \<Rightarrow> 'v response \<times> ('v, 'w) state) \<Rightarrow>
   bool \<Rightarrow> string \<Rightarrow> 'v dict \<Rightarrow> ref option \<Rightarrow> bool \<Rightarrow> ('v, 'w) state \<Rightarrow>
   ('v exn + 'v response) \<times> ('v, 'w) state" where
  "handle_authentication_errors C execute_request retry url headers data authenticated s =
     retry_loop C execute_request retry url data authenticated
       (if retry then 3 else 1) headers None s"

section \<open>The public methods\<close>

definition get ::
  "('v, 'w) collaborators \<Rightarrow> string \<Rightarrow> ref option \<Rightarrow> bool \<Rightarrow> bool \<Rightarrow> ('v, 'w) state \<Rightarrow>
   ('v exn + 'v) \<times> ('v, 'w) state" where
  "get C endpoint query authenticated retry s =
     (case build_url s endpoint of
        Inl e \<Rightarrow> (Inl e, s)
      | Inr url \<Rightarrow>
          (let (query', s1) = handle_on_behalf_of query s;
               headers = build_headers s1 authenticated;
               execute_request = (\<lambda>url headers data. session_request C GET url headers data);
               (result, s2) = handle_authentication_errors C execute_request retry url headers
                                query' authenticated s1
           in case result of
                Inl e \<Rightarrow> (Inl e, s2)
              | Inr response \<Rightarrow> (handle_errors ''get'' url query' response, s2)))"

definition post ::
  "('v, 'w) collaborators \<Rightarrow> string \<Rightarrow> ref option \<Rightarrow> bool \<Rightarrow> bool \<Rightarrow> ('v, 'w) state \<Rightarrow>
   ('v exn + 'v) \<times> ('v, 'w) state" where
  "post C endpoint data authenticated retry s =
     (case build_url s endpoint of
        Inl e \<Rightarrow> (Inl e, s)
      | Inr url \<Rightarrow>
          (let (data', s1) = handle_on_behalf_of data s;
               headers = build_headers s1 authenticated;
               execute_request = (\<lambda>url headers data. session_request C POST url headers data);
               (result, s2) = handle_authentication_errors C execute_request retry url headers
                                data' authenticated s1
           in case result of
                Inl e \<Rightarrow> (Inl e, s2)
              | Inr response \<Rightarrow> (handle_errors ''post'' url data' response, s2)))"

text \<open>A call of \<^verbatim>\<open>get\<close> or of \<^verbatim>\<open>post\<close>, chosen by the method; and the verb each passes on.\<close>

definition http_call ::
  "('v, 'w) collaborators \<Rightarrow> http_method \<Rightarrow> string \<Rightarrow> ref option \<Rightarrow> bool \<Rightarrow> bool \<Rightarrow>
   ('v, 'w) state \<Rightarrow> ('v exn + 'v) \<times> ('v, 'w) state" where
  "http_call C m = (case m of GET \<Rightarrow> get C | POST \<Rightarrow> post C)"

definition verb_of :: "http_method \<Rightarrow> string" where
  "verb_of m = (case m of GET \<Rightarrow> ''get'' | POST \<Rightarrow> ''post'')"

text \<open>
  The headers \<^verbatim>\<open>__build_headers\<close> returns while the configuration holds \<open>token\<close>.
\<close>

definition auth_header :: "bool \<Rightarrow> 'v \<Rightarrow> 'v dict" where
  "auth_header authenticated token =
     (if authenticated then [''X-Auth-Token'' \<mapsto> token] else Map.empty)"

section \<open>Reading the log of calls\<close>

text \<open>The calls logged between two states.\<close>

definition new_calls :: "('v, 'w) state \<Rightarrow> ('v, 'w) state \<Rightarrow> 'v event list" where
  "new_calls s s' = drop (length (calls s)) (calls s')"

text \<open>
  Of the requests of a log, in order: the responses, the URLs, the headers and the
  parameters; and of its re-authentications, the tokens they left.
\<close>

fun responses_of :: "'v event list \<Rightarrow> 'v response list" where
  "responses_of [] = []"
| "responses_of (Request m url headers params response # es) = response # responses_of es"
| "responses_of (Reauthenticate token # es) = responses_of es"

fun urls_of :: "'v event list \<Rightarrow> string list" where
  "urls_of [] = []"
| "urls_of (Request m url headers params response # es) = url # urls_of es"
| "urls_of (Reauthenticate token # es) = urls_of es"

fun headers_of :: "'v event list \<Rightarrow> 'v dict list" where
  "headers_of [] = []"
| "headers_of (Request m url headers params response # es) = headers # headers_of es"
| "headers_of (Reauthenticate token # es) = headers_of es"

fun params_of :: "'v event list \<Rightarrow> 'v dict option list" where
  "params_of [] = []"
| "params_of (Request m url headers params response # es) = params # params_of es"
| "params_of (Reauthenticate token # es) = params_of es"

text \<open>What each request of a log carried under the header \<^verbatim>\<open>X-Auth-Token\<close>.\<close>

fun sent_tokens :: "'v event list \<Rightarrow> 'v option list" where
  "sent_tokens [] = []"
| "sent_tokens (Request m url headers params response # es) =
     headers ''X-Auth-Token'' # sent_tokens es"
| "sent_tokens (Reauthenticate token # es) = sent_tokens es"

fun reauth_tokens :: "'v event list \<Rightarrow> 'v list" where
  "reauth_tokens [] = []"
| "reauth_tokens (Request m url headers params response # es) = reauth_tokens es"
| "reauth_tokens (Reauthenticate token # es) = token # reauth_tokens es"

text \<open>The last call of a log is a request, so nothing was called after its response.\<close>

fun ends_with_request :: "'v event list \<Rightarrow> bool" where
  "ends_with_request [] = False"
| "ends_with_request [Request m url headers params response] = True"
| "ends_with_request [Reauthenticate token] = False"
| "ends_with_request (e # e' # es) = ends_with_request (e' # es)"

text \<open>
  Every request of a log went out with the headers for the token the configuration held
  at that moment: \<open>token\<close> at the start, and after a re-authentication the token it left.
\<close>

fun headers_current :: "bool \<Rightarrow> 'v \<Rightarrow> 'v event list \<Rightarrow> bool" where
  "headers_current authenticated token [] = True"
| "headers_current authenticated token (Request m url headers params response # es) =
     (headers = (if authenticated then [''X-Auth-Token'' \<mapsto> token] else Map.empty)
      \<and> headers_current authenticated token es)"
| "headers_current authenticated token (Reauthenticate token' # es) =
     headers_current authenticated token' es"

text \<open>
  Every request of a log went to \<open>url\<close>, there was at least one, and an error raised for
  a response names \<open>url\<close> too.
\<close>

definition requests_go_to :: "string \<Rightarrow> 'v exn + 'v \<Rightarrow> 'v event list \<Rightarrow> bool" where
  "requests_go_to url result es =
     (set (urls_of es) = {url}
      \<and> (case result of
           Inl (HttpError k verb url' params r) \<Rightarrow> url' = url
         | Inl _ \<Rightarrow> False
         | Inr _ \<Rightarrow> True))"

text \<open>
  The shape of the log of a run of the loop that starts with \<open>n\<close> attempts left while the
  configuration holds \<open>token\<close>: an attempt that is not answered 401 ends the run; one
  that is answered 401 is followed by a re-authentication when \<open>retry\<close> holds, and then by
  the log of the run with one attempt less.
\<close>

inductive loop_log ::
  "bool \<Rightarrow> bool \<Rightarrow> http_method \<Rightarrow> string \<Rightarrow> 'v dict option \<Rightarrow> nat \<Rightarrow> 'v \<Rightarrow> 'v event list \<Rightarrow> bool"
  for retry :: bool and a :: bool and m :: http_method and url :: string
    and p :: "'v dict option"
where
  spent: "loop_log retry a m url p 0 token []"
| answered: "status_code r \<noteq> 401 \<Longrightarrow>
     loop_log retry a m url p (Suc n) token [Request m url (auth_header a token) p r]"
| refreshed: "status_code r = 401 \<Longrightarrow> retry \<Longrightarrow> loop_log retry a m url p n token' es \<Longrightarrow>
     loop_log retry a m url p (Suc n) token
       (Request m url (auth_header a token) p r # Reauthenticate token' # es)"
| refused: "status_code r = 401 \<Longrightarrow> \<not> retry \<Longrightarrow> loop_log retry a m url p n token es \<Longrightarrow>
     loop_log retry a m url p (Suc n) token (Request m url (auth_header a token) p r # es)"

section \<open>A scripted world\<close>

text \<open>
  Collaborators for concrete runs: the state behind the session is the number of requests
  answered so far, the \<open>n\<close>-th request is answered \<open>answer n\<close> whatever it asks, and a
  re-authentication replaces the token by \<open>refresh token\<close>.
\<close>

definition scripted :: "(nat \<Rightarrow> 'v response) \<Rightarrow> ('v \<Rightarrow> 'v) \<Rightarrow> ('v, nat) collaborators" where
  "scripted answer refresh =
     \<lparr>session_get = (\<lambda>url headers params n. (answer n, Suc n)),
      session_post = (\<lambda>url headers params n. (answer n, Suc n)),
      reauthenticate = (\<lambda>token n. (refresh token, n))\<rparr>"

text \<open>
  Answers with the status codes of a list, in order, and 200 once the list is used up;
  and a start state with the token \<open>''t''\<close>, no request answered yet and an empty log,
  whose store holds one empty dictionary, at reference 0.
\<close>

definition answers :: "int list \<Rightarrow> nat \<Rightarrow> string response" where
  "answers codes n =
     \<lparr>status_code = (if n < length codes then codes ! n else 200), json = ''body''\<rparr>"

definition start :: "environment \<Rightarrow> string option \<Rightarrow> (string, nat) state" where
  "start env obo =
     \<lparr>environment = env, auth_token = ''t'', on_behalf_of = obo,
      heap = (\<lambda>r. Map.empty), next_ref = 1, world = 0, calls = []\<rparr>"

section \<open>Facts about the log and the collaborators\<close>

lemma responses_of_append [simp]: "responses_of (xs @ ys) = responses_of xs @ responses_of ys"
  by (induction xs rule: responses_of.induct) simp_all

lemma reauth_tokens_append [simp]: "reauth_tokens (xs @ ys) = reauth_tokens xs @ reauth_tokens ys"
  by (induction xs rule: reauth_tokens.induct) simp_all

lemma session_request_frame:
  assumes "session_request C m url h data s = (r, s1)"
  shows "calls s1 = calls s @ [Request m url h (map_option (heap s) data) r]"
    and "heap s1 = heap s" and "next_ref s1 = next_ref s" and "environment s1 = environment s"
    and "on_behalf_of s1 = on_behalf_of s" and "auth_token s1 = auth_token s"
  using assms by (auto simp: session_request_def Let_def split: prod.splits)

lemma config_reauthenticate_frame:
  shows "calls (config_reauthenticate C s)
           = calls s @ [Reauthenticate (auth_token (config_reauthenticate C s))]"
    and "heap (config_reauthenticate C s) = heap s"
    and "next_ref (config_reauthenticate C s) = next_ref s"
    and "environment (config_reauthenticate C s) = environment s"
    and "on_behalf_of (config_reauthenticate C s) = on_behalf_of s"
  by (auto simp: config_reauthenticate_def Let_def split: prod.splits)

lemma ends_with_request_Cons [simp]:
  "es \<noteq> [] \<Longrightarrow> ends_with_request (e # es) = ends_with_request es"
  by (cases es) simp_all

section \<open>The loop and its log\<close>

lemma retry_loop_frame:
  assumes "retry_loop C (session_request C m) retry url data a n h resp s = (res, s')"
  shows "heap s' = heap s \<and> next_ref s' = next_ref s \<and> environment s' = environment s
      \<and> on_behalf_of s' = on_behalf_of s"
  using assms
proof (induction n arbitrary: h resp s)
  case 0
  then show ?case by (auto split: option.splits)
next
  case (Suc n)
  obtain r s1 where req: "session_request C m url h data s = (r, s1)"
    by (cases "session_request C m url h data s")
  note f1 = session_request_frame [OF req]
  note f2 = config_reauthenticate_frame [of C s1]
  from Suc.prems req consider
      "s' = s1"
    | "retry_loop C (session_request C m) retry url data a n
         (build_headers (config_reauthenticate C s1) a) (Some r) (config_reauthenticate C s1) = (res, s')"
    | "retry_loop C (session_request C m) retry url data a n h (Some r) s1 = (res, s')"
    by (auto simp: Let_def split: if_splits)
  then show ?case
  proof cases
    case 1
    with f1 show ?thesis by simp
  next
    case 2
    from Suc.IH [OF 2] f1 f2 show ?thesis by simp
  next
    case 3
    from Suc.IH [OF 3] f1 show ?thesis by simp
  qed
qed

lemma retry_loop_log:
  assumes "retry_loop C (session_request C m) retry url data a n h resp s = (res, s')"
      and "h = build_headers s a"
  shows "\<exists>es. calls s' = calls s @ es
      \<and> loop_log retry a m url (map_option (heap s) data) n (auth_token s) es
      \<and> auth_token s' = last (auth_token s # reauth_tokens es)
      \<and> res = (case responses_of es of
                  [] \<Rightarrow> (case resp of None \<Rightarrow> Inl UnboundLocalError | Some r \<Rightarrow> Inr r)
                | _ # _ \<Rightarrow> Inr (last (responses_of es)))"
  using assms
proof (induction n arbitrary: h resp s)
  case 0
  then show ?case by (auto split: option.splits intro: loop_log.spent)
next
  case (Suc n)
  obtain r s1 where req: "session_request C m url h data s = (r, s1)"
    by (cases "session_request C m url h data s")
  note f1 = session_request_frame [OF req]
  let ?p = "map_option (heap s) data"
  have h: "h = auth_header a (auth_token s)"
    using Suc.prems(2) by (simp add: build_headers_def auth_header_def)
  show ?case
  proof (cases "status_code r \<noteq> 401")
    case True
    with Suc.prems(1) req have "res = Inr r" "s' = s1" by simp_all
    with f1 h True show ?thesis
      by (intro exI [of _ "[Request m url h ?p r]"]) (simp add: loop_log.answered)
  next
    case False
    then have st: "status_code r = 401" by simp
    show ?thesis
    proof (cases retry)
      case True
      define s2 where "s2 = config_reauthenticate C s1"
      note f2 = config_reauthenticate_frame [of C s1, folded s2_def]
      from Suc.prems(1) req st True
      have run: "retry_loop C (session_request C m) retry url data a n (build_headers s2 a) (Some r) s2
                   = (res, s')"
        by (simp add: s2_def Let_def)
      from Suc.IH [OF run refl] obtain es where es:
        "calls s' = calls s2 @ es"
        "loop_log retry a m url (map_option (heap s2) data) n (auth_token s2) es"
        "auth_token s' = last (auth_token s2 # reauth_tokens es)"
        "res = (case responses_of es of
                  [] \<Rightarrow> (case Some r of None \<Rightarrow> Inl UnboundLocalError | Some r \<Rightarrow> Inr r)
                | _ # _ \<Rightarrow> Inr (last (responses_of es)))"
        by blast
      let ?es = "Request m url h ?p r # Reauthenticate (auth_token s2) # es"
      have "calls s' = calls s @ ?es" using es(1) f1(1) f2(1) by simp
      moreover have "loop_log retry a m url ?p (Suc n) (auth_token s) ?es"
        using es(2) f1(2) f2(2) st True unfolding h by (simp add: loop_log.refreshed)
      moreover have "auth_token s' = last (auth_token s # reauth_tokens ?es)"
        using es(3) by simp
      moreover have "res = (case responses_of ?es of
                  [] \<Rightarrow> (case resp of None \<Rightarrow> Inl UnboundLocalError | Some r \<Rightarrow> Inr r)
                | _ # _ \<Rightarrow> Inr (last (responses_of ?es)))"
        using es(4) by (simp split: list.splits)
      ultimately show ?thesis by blast
    next
      case False
      from Suc.prems(1) req st False
      have run: "retry_loop C (session_request C m) retry url data a n h (Some r) s1 = (res, s')"
        by (simp add: Let_def)
      have h1: "h = build_headers s1 a"
        unfolding Suc.prems(2) build_headers_def f1(6) by (rule refl)
      from Suc.IH [OF run h1] obtain es where es:
        "calls s' = calls s1 @ es"
        "loop_log retry a m url (map_option (heap s1) data) n (auth_token s1) es"
        "auth_token s' = last (auth_token s1 # reauth_tokens es)"
        "res = (case responses_of es of
                  [] \<Rightarrow> (case Some r of None \<Rightarrow> Inl UnboundLocalError | Some r \<Rightarrow> Inr r)
                | _ # _ \<Rightarrow> Inr (last (responses_of es)))"
        by blast
      let ?es = "Request m url h ?p r # es"
      have "calls s' = calls s @ ?es" using es(1) f1(1) by simp
      moreover have "loop_log retry a m url ?p (Suc n) (auth_token s) ?es"
        using es(2) f1 st False unfolding h by (simp add: loop_log.refused)
      moreover have "auth_token s' = last (auth_token s # reauth_tokens ?es)"
        using es(3) f1 by simp
      moreover have "res = (case responses_of ?es of
                  [] \<Rightarrow> (case resp of None \<Rightarrow> Inl UnboundLocalError | Some r \<Rightarrow> Inr r)
                | _ # _ \<Rightarrow> Inr (last (responses_of ?es)))"
        using es(4) by (simp split: list.splits)
      ultimately show ?thesis by blast
    qed
  qed
qed

subsection \<open>What the shape of a log gives\<close>

lemma loop_log_length: "loop_log retry a m url p n token es \<Longrightarrow> length (responses_of es) \<le> n"
  by (induction rule: loop_log.induct) simp_all

lemma loop_log_nonempty:
  "loop_log retry a m url p n token es \<Longrightarrow> 0 < n \<Longrightarrow> responses_of es \<noteq> []"
  by (induction rule: loop_log.induct) simp_all

lemma loop_log_earlier_401:
  "loop_log retry a m url p n token es \<Longrightarrow> \<forall>r\<in>set (butlast (responses_of es)). status_code r = 401"
  by (induction rule: loop_log.induct) simp_all

lemma loop_log_exhausted:
  "loop_log retry a m url p n token es \<Longrightarrow> responses_of es \<noteq> [] \<Longrightarrow>
   status_code (last (responses_of es)) = 401 \<Longrightarrow> length (responses_of es) = n"
  by (induction rule: loop_log.induct) (auto elim: loop_log.cases)

lemma loop_log_reauth_count:
  "loop_log retry a m url p n token es \<Longrightarrow>
   length (reauth_tokens es) =
     (if retry then length (filter (\<lambda>r. status_code r = 401) (responses_of es)) else 0)"
  by (induction rule: loop_log.induct) simp_all

lemma loop_log_stops:
  "loop_log retry a m url p n token es \<Longrightarrow> responses_of es \<noteq> [] \<Longrightarrow>
   status_code (last (responses_of es)) \<noteq> 401 \<Longrightarrow> ends_with_request es"
  by (induction rule: loop_log.induct) (auto elim: loop_log.cases)

lemma loop_log_requests_use:
  "loop_log retry a m url p n token es \<Longrightarrow> set (urls_of es) \<subseteq> {url} \<and> set (params_of es) \<subseteq> {p}"
  by (induction rule: loop_log.induct) simp_all

lemma loop_log_headers_current:
  "loop_log retry a m url p n token es \<Longrightarrow> headers_current a token es"
  by (induction rule: loop_log.induct) (simp_all add: auth_header_def)


lemma loop_log_requests_nonempty:
  "loop_log retry a m url p n token es \<Longrightarrow> 0 < n \<Longrightarrow> urls_of es \<noteq> [] \<and> params_of es \<noteq> []"
  by (induction rule: loop_log.induct) simp_all

lemma loop_log_sets:
  assumes "loop_log retry a m url p n token es" and "0 < n"
  shows "set (urls_of es) = {url} \<and> set (params_of es) = {p}"
proof -
  from loop_log_requests_use [OF assms(1)]
  have "set (urls_of es) \<subseteq> {url}" "set (params_of es) \<subseteq> {p}" by simp_all
  moreover from loop_log_requests_nonempty [OF assms]
  have "set (urls_of es) \<noteq> {}" "set (params_of es) \<noteq> {}" by simp_all
  ultimately show ?thesis by (simp add: subset_singleton_iff)
qed

section \<open>A call of get or post\<close>

lemma new_calls_append: "calls s' = calls s @ es \<Longrightarrow> new_calls s s' = es"
  by (simp add: new_calls_def)

lemma build_url_Inr:
  "build_url s endpoint = Inr url \<longleftrightarrow>
     (\<exists>base. ENVIRONMENT_URLS (environment s) = Some base \<and> url = base @ endpoint)"
  by (auto simp: build_url_def environment_url_def split: option.splits)

lemma build_url_Inl:
  "build_url s endpoint = Inl e \<longleftrightarrow>
     ENVIRONMENT_URLS (environment s) = None \<and> e = RuntimeError (environment s)"
  by (auto simp: build_url_def environment_url_def split: option.splits)

lemma ENVIRONMENT_URLS_None: "ENVIRONMENT_URLS env = None \<longleftrightarrow> (\<exists>x. env = ENV_OTHER x)"
  by (cases env) (simp_all add: ENVIRONMENT_URLS_def)

lemma handle_on_behalf_of_frame:
  assumes "handle_on_behalf_of data s = (data', s1)"
  shows "calls s1 = calls s" and "auth_token s1 = auth_token s" and "world s1 = world s"
    and "environment s1 = environment s" and "on_behalf_of s1 = on_behalf_of s"
  using assms
  by (auto simp: handle_on_behalf_of_def new_dict_def Let_def
           split: option.splits prod.splits if_splits)

lemma http_call_get_post: "http_call C GET = get C" "http_call C POST = post C"
  by (simp_all add: http_call_def)

text \<open>Both methods are one sequence of steps, and differ in the session method and the verb.\<close>

lemma http_call_unfold:
  "http_call C m endpoint data a retry s =
     (case build_url s endpoint of
        Inl e \<Rightarrow> (Inl e, s)
      | Inr url \<Rightarrow>
          (let (data', s1) = handle_on_behalf_of data s;
               headers = build_headers s1 a;
               (result, s2) = handle_authentication_errors C (session_request C m) retry url
                                headers data' a s1
           in case result of
                Inl e \<Rightarrow> (Inl e, s2)
              | Inr response \<Rightarrow> (handle_errors (verb_of m) url data' response, s2)))"
  by (cases m; cases "build_url s endpoint")
     (simp_all add: http_call_def get_def post_def verb_of_def Let_def split: prod.splits sum.splits)

lemma http_call_invalid:
  "ENVIRONMENT_URLS (environment s) = None \<Longrightarrow>
   http_call C m endpoint data a retry s = (Inl (RuntimeError (environment s)), s)"
  by (simp add: http_call_unfold build_url_def environment_url_def)

lemma http_call_run:
  assumes url: "build_url s endpoint = Inr url"
      and obo: "handle_on_behalf_of data s = (data', s1)"
      and call: "http_call C m endpoint data a retry s = (result, s')"
  shows "\<exists>es. calls s' = calls s @ es
      \<and> loop_log retry a m url (map_option (heap s1) data') (if retry then 3 else 1)
          (auth_token s) es
      \<and> auth_token s' = last (auth_token s # reauth_tokens es)
      \<and> result = handle_errors (verb_of m) url data' (last (responses_of es))
      \<and> heap s' = heap s1 \<and> next_ref s' = next_ref s1"
proof -
  let ?n = "if retry then 3 else 1 :: nat"
  obtain res s2 where loop:
    "retry_loop C (session_request C m) retry url data' a ?n (build_headers s1 a) None s1 = (res, s2)"
    by (cases "retry_loop C (session_request C m) retry url data' a ?n (build_headers s1 a) None s1")
  note f0 = handle_on_behalf_of_frame [OF obo]
  from retry_loop_log [OF loop refl] obtain es where es:
    "calls s2 = calls s1 @ es"
    "loop_log retry a m url (map_option (heap s1) data') ?n (auth_token s1) es"
    "auth_token s2 = last (auth_token s1 # reauth_tokens es)"
    "res = (case responses_of es of
              [] \<Rightarrow> (case None of None \<Rightarrow> Inl UnboundLocalError | Some r \<Rightarrow> Inr r)
            | _ # _ \<Rightarrow> Inr (last (responses_of es)))"
    by blast
  have "responses_of es \<noteq> []"
    using loop_log_nonempty [OF es(2)] by simp
  with es(4) have res: "res = Inr (last (responses_of es))"
    by (simp split: list.splits)
  from call url obo loop res
  have "result = handle_errors (verb_of m) url data' (last (responses_of es))" and "s' = s2"
    by (simp_all add: http_call_unfold handle_authentication_errors_def)
  moreover from retry_loop_frame [OF loop] have "heap s2 = heap s1" "next_ref s2 = next_ref s1"
    by simp_all
  ultimately show ?thesis
    using es(1-3) f0(1,2) by auto
qed

lemma status_2xx: "(c::int) div 100 = 2 \<longleftrightarrow> 200 \<le> c \<and> c \<le> 299"
  by presburger

lemma build_headers_auth_header: "build_headers s a = auth_header a (auth_token s)"
  by (simp add: build_headers_def auth_header_def)

lemma handle_errors_url:
  "case handle_errors verb url params r of
     Inl (HttpError k verb' url' params' r') \<Rightarrow> url' = url
   | Inl _ \<Rightarrow> False
   | Inr _ \<Rightarrow> True"
  by (simp add: handle_errors_def)

lemma http_call_requests_go_to:
  assumes "ENVIRONMENT_URLS (environment s) = Some base"
    and "http_call C m endpoint data a retry s = (result, s')"
  shows "requests_go_to (base @ endpoint) result (new_calls s s')"
proof -
  have url: "build_url s endpoint = Inr (base @ endpoint)"
    using assms(1) by (simp add: build_url_Inr)
  obtain data' s1 where obo: "handle_on_behalf_of data s = (data', s1)"
    by (cases "handle_on_behalf_of data s")
  from http_call_run [OF url obo assms(2)] obtain es where es:
    "calls s' = calls s @ es"
    "loop_log retry a m (base @ endpoint) (map_option (heap s1) data') (if retry then 3 else 1)
       (auth_token s) es"
    "result = handle_errors (verb_of m) (base @ endpoint) data' (last (responses_of es))"
    by blast
  have "set (urls_of es) = {base @ endpoint}"
    using loop_log_sets [OF es(2)] by simp
  then show ?thesis
    unfolding requests_go_to_def new_calls_append [OF es(1)] es(3)
    using handle_errors_url [where verb = "verb_of m" and url = "base @ endpoint"
        and params = data' and r = "last (responses_of es)"]
    by simp
qed

lemma http_call_params:
  assumes "build_url s endpoint = Inr url"
    and "handle_on_behalf_of data s = (data', s1)"
    and "http_call C m endpoint data a retry s = (result, s')"
  shows "set (params_of (new_calls s s')) = {map_option (heap s1) data'} \<and> heap s' = heap s1
    \<and> next_ref s' = next_ref s1"
proof -
  from http_call_run [OF assms] obtain es where es:
    "calls s' = calls s @ es"
    "loop_log retry a m url (map_option (heap s1) data') (if retry then 3 else 1)
       (auth_token s) es"
    "heap s' = heap s1" "next_ref s' = next_ref s1"
    by blast
  have "set (params_of es) = {map_option (heap s1) data'}"
    using loop_log_sets [OF es(2)] by simp
  with es(3,4) show ?thesis
    unfolding new_calls_append [OF es(1)] by simp
qed

lemma headers_current_unauthenticated:
  "headers_current False token es \<Longrightarrow> h \<in> set (headers_of es) \<Longrightarrow> h = Map.empty"
  by (induction es arbitrary: token rule: headers_of.induct) auto

lemma headers_current_authenticated:
  "headers_current True token es \<Longrightarrow> h \<in> set (headers_of es) \<Longrightarrow> dom h = {''X-Auth-Token''}"
  by (induction es arbitrary: token rule: headers_of.induct) (auto split: if_splits)

lemma http_call_headers_current:
  assumes "http_call C m endpoint data a retry s = (result, s')"
  shows "headers_current a (auth_token s) (new_calls s s')"
proof (cases "build_url s endpoint")
  case (Inl e)
  then have "ENVIRONMENT_URLS (environment s) = None" by (simp add: build_url_Inl)
  from http_call_invalid [OF this] assms have "s' = s" by simp
  then show ?thesis by (simp add: new_calls_def)
next
  case (Inr url)
  obtain data' s1 where obo: "handle_on_behalf_of data s = (data', s1)"
    by (cases "handle_on_behalf_of data s")
  from http_call_run [OF Inr obo assms] obtain es where es:
    "calls s' = calls s @ es"
    "loop_log retry a m url (map_option (heap s1) data') (if retry then 3 else 1)
       (auth_token s) es"
    by blast
  show ?thesis
    unfolding new_calls_append [OF es(1)] by (rule loop_log_headers_current [OF es(2)])
qed

lemma loop_log_first_401:
  assumes "loop_log True a m url p (Suc (Suc n)) token es"
    and "status_code (hd (responses_of es)) = 401"
  shows "reauth_tokens es \<noteq> [] \<and> 2 \<le> length (responses_of es)"
  using assms(1)
proof (cases rule: loop_log.cases)
  case (answered r)
  with assms(2) show ?thesis by simp
next
  case (refreshed r token' es')
  from loop_log_nonempty [OF refreshed(4)] have "responses_of es' \<noteq> []" by simp
  then have "1 \<le> length (responses_of es')" by (cases "responses_of es'") simp_all
  with refreshed(1) show ?thesis by simp
next
  case (refused r es')
  then show ?thesis by simp
qed

text \<open>The equations that run a call step by step, and those that evaluate a scripted run.\<close>

lemmas run_defs =
  http_call_unfold handle_authentication_errors_def session_request_def
  config_reauthenticate_def build_headers_auth_header numeral_3_eq_3 Let_def

lemmas concrete_defs =
  http_call_def get_def post_def build_url_def environment_url_def ENVIRONMENT_URLS_def
  handle_on_behalf_of_def new_dict_def build_headers_def auth_header_def
  handle_authentication_errors_def session_request_def session_send_def
  config_reauthenticate_def handle_errors_def HTTP_CODE_TO_ERROR_def
  scripted_def answers_def start_def new_calls_def numeral_3_eq_3 Let_def

section \<open>The claims\<close>

text \<open>
  C1.  In every call of \<^verbatim>\<open>get\<close> or \<^verbatim>\<open>post\<close> the loop issues at most 3 requests when
  \<open>retry\<close> is true and at most 1 when it is false.  When the URL resolves, so that the loop
  is entered: at least one request is issued; every request before the last was answered
  401, so the loop stops at the first response that is not 401; after such a response
  nothing more is called, and re-authentication is called once for each 401 when \<open>retry\<close>
  is true and never when it is false; a last response of 401 means the attempts are used
  up; and the result of the call is the error mapping applied to the last response.
\<close>

theorem retry_loop_attempts:
  assumes "http_call C m endpoint data authenticated retry s = (result, s')"
  shows "length (responses_of (new_calls s s')) \<le> (if retry then 3 else 1)
    \<and> (\<forall>url. build_url s endpoint = Inr url \<longrightarrow>
         (let es = new_calls s s'; rs = responses_of es in
            rs \<noteq> []
          \<and> (\<forall>r\<in>set (butlast rs). status_code r = 401)
          \<and> (status_code (last rs) \<noteq> 401 \<longrightarrow> ends_with_request es)
          \<and> (status_code (last rs) = 401 \<longrightarrow> length rs = (if retry then 3 else 1))
          \<and> length (reauth_tokens es) =
               (if retry then length (filter (\<lambda>r. status_code r = 401) rs) else 0)
          \<and> result = handle_errors (verb_of m) url (fst (handle_on_behalf_of data s)) (last rs)))"
proof (cases "build_url s endpoint")
  case (Inl e)
  then have "ENVIRONMENT_URLS (environment s) = None" by (simp add: build_url_Inl)
  from http_call_invalid [OF this] assms have "s' = s" by simp
  with Inl show ?thesis by (simp add: new_calls_def)
next
  case (Inr url)
  obtain data' s1 where obo: "handle_on_behalf_of data s = (data', s1)"
    by (cases "handle_on_behalf_of data s")
  from http_call_run [OF Inr obo assms] obtain es where es:
    "calls s' = calls s @ es"
    "loop_log retry authenticated m url (map_option (heap s1) data') (if retry then 3 else 1)
       (auth_token s) es"
    "result = handle_errors (verb_of m) url data' (last (responses_of es))"
    by blast
  have new: "new_calls s s' = es" by (rule new_calls_append [OF es(1)])
  have ne: "responses_of es \<noteq> []" using loop_log_nonempty [OF es(2)] by simp
  note facts = loop_log_length [OF es(2)] loop_log_earlier_401 [OF es(2)]
    loop_log_stops [OF es(2) ne] loop_log_exhausted [OF es(2) ne]
    loop_log_reauth_count [OF es(2)]
  show ?thesis
    unfolding new Inr Let_def using ne facts es(3) obo by simp
qed

theorem retry_loop_attempts_witness:
  "responses_of (new_calls (start ENV_UAT None)
      (snd (http_call (scripted (answers [401, 404]) id) GET ''/rates'' None True True
             (start ENV_UAT None))))
     = [answers [401, 404] 0, answers [401, 404] 1]
   \<and> reauth_tokens (new_calls (start ENV_UAT None)
      (snd (http_call (scripted (answers [401, 404]) id) GET ''/rates'' None True True
             (start ENV_UAT None)))) = [''t'']
   \<and> fst (http_call (scripted (answers [401, 404]) id) GET ''/rates'' None True True
             (start ENV_UAT None))
     = Inl (HttpError NotFoundError ''get'' ''https://api-uat1.ccycloud.com/rates'' None
              (answers [401, 404] 1))"
  using retry_loop_attempts [of "scripted (answers [401, 404]) id" GET "''/rates''" None True True
      "start ENV_UAT None"
      "fst (http_call (scripted (answers [401, 404]) id) GET ''/rates'' None True True
             (start ENV_UAT None))"
      "snd (http_call (scripted (answers [401, 404]) id) GET ''/rates'' None True True
             (start ENV_UAT None))"]
  by (simp add: concrete_defs)

text \<open>
  C2, as amended.  For every response: a status from 200 to 299 returns the decoded body;
  a status of exactly 400, 401, 403, 404, 429 or 500 raises \<open>BadRequestError\<close>,
  \<open>AuthenticationError\<close>, \<open>ForbiddenError\<close>, \<open>NotFoundError\<close>, \<open>TooManyRequestsError\<close> or
  \<open>InternalApplicationError\<close>; every other status raises \<open>ApiError\<close>; and every error
  raised carries the verb, the URL, the parameters and the response.  The claim lists five
  exact codes and sends every other status that is not 2xx to \<open>ApiError\<close>; the table has a
  sixth entry, for 401.
\<close>

theorem error_mapping:
  "(200 \<le> status_code r \<and> status_code r \<le> 299 \<longrightarrow>
      handle_errors verb url params r = Inr (json r))
   \<and> (status_code r = 400 \<longrightarrow>
      handle_errors verb url params r = Inl (HttpError BadRequestError verb url params r))
   \<and> (status_code r = 401 \<longrightarrow>
      handle_errors verb url params r = Inl (HttpError AuthenticationError verb url params r))
   \<and> (status_code r = 403 \<longrightarrow>
      handle_errors verb url params r = Inl (HttpError ForbiddenError verb url params r))
   \<and> (status_code r = 404 \<longrightarrow>
      handle_errors verb url params r = Inl (HttpError NotFoundError verb url params r))
   \<and> (status_code r = 429 \<longrightarrow>
      handle_errors verb url params r = Inl (HttpError TooManyRequestsError verb url params r))
   \<and> (status_code r = 500 \<longrightarrow>
      handle_errors verb url params r = Inl (HttpError InternalApplicationError verb url params r))
   \<and> (\<not> (200 \<le> status_code r \<and> status_code r \<le> 299)
        \<and> status_code r \<notin> {400, 401, 403, 404, 429, 500} \<longrightarrow>
      handle_errors verb url params r = Inl (HttpError ApiError verb url params r))"
  by (simp add: handle_errors_def HTTP_CODE_TO_ERROR_def status_2xx)

theorem error_mapping_witness:
  "handle_errors ''post'' ''https://devapi.thecurrencycloud.com/payments'' (Some 0)
      \<lparr>status_code = 418, json = ''teapot''\<rparr>
     = Inl (HttpError ApiError ''post'' ''https://devapi.thecurrencycloud.com/payments'' (Some 0)
              \<lparr>status_code = 418, json = ''teapot''\<rparr>)
   \<and> handle_errors ''get'' ''https://devapi.thecurrencycloud.com/rates'' None
      \<lparr>status_code = 204, json = ''nothing''\<rparr> = Inr ''nothing''"
  using error_mapping [of "\<lparr>status_code = 418, json = ''teapot''\<rparr>" "''post''"
      "''https://devapi.thecurrencycloud.com/payments''" "Some 0"]
    error_mapping [of "\<lparr>status_code = 204, json = ''nothing''\<rparr>" "''get''"
      "''https://devapi.thecurrencycloud.com/rates''" None]
  by simp

text \<open>
  C2 as stated fails at a response with status 401: it is not from 200 to 299 and not one
  of 400, 403, 404, 429 and 500, and the error raised is \<open>AuthenticationError\<close>, not
  \<open>ApiError\<close>.
\<close>

theorem error_mapping_401_counterexample:
  "status_code \<lparr>status_code = 401, json = ''denied''\<rparr> \<notin> {400, 403, 404, 429, 500}
   \<and> \<not> (200 \<le> status_code \<lparr>status_code = 401, json = ''denied''\<rparr>
         \<and> status_code \<lparr>status_code = 401, json = ''denied''\<rparr> \<le> 299)
   \<and> handle_errors ''get'' ''https://api.thecurrencycloud.com/balances'' None
        \<lparr>status_code = 401, json = ''denied''\<rparr>
     = Inl (HttpError AuthenticationError ''get'' ''https://api.thecurrencycloud.com/balances''
              None \<lparr>status_code = 401, json = ''denied''\<rparr>)
   \<and> handle_errors ''get'' ''https://api.thecurrencycloud.com/balances'' None
        \<lparr>status_code = 401, json = ''denied''\<rparr>
     \<noteq> Inl (HttpError ApiError ''get'' ''https://api.thecurrencycloud.com/balances''
              None \<lparr>status_code = 401, json = ''denied''\<rparr>)"
  by (simp add: handle_errors_def HTTP_CODE_TO_ERROR_def)

text \<open>
  C3, as amended.  In a call of \<^verbatim>\<open>get\<close> or \<^verbatim>\<open>post\<close> with \<open>retry\<close> true whose three requests
  are answered 401, 401 and 200, with a re-authentication after each 401: exactly those
  three requests are issued and exactly those two re-authentications made, in this order;
  the headers of each request are built from the token the configuration holds at that
  moment, so that a retried request carries the token left by the re-authentication before
  it when \<open>authenticated\<close> is true, and no header at all when it is false; and the decoded
  body of the third response is returned.  The hypotheses say what the session and the
  configuration answer at each step; the conclusion gives the result and the final state
  with its log.
\<close>

theorem two_401_then_200:
  assumes "build_url s endpoint = Inr url"
    and "handle_on_behalf_of data s = (data', s1)"
    and "session_send C m url (auth_header authenticated (auth_token s))
           (map_option (heap s1) data') (world s) = (r1, w1)"
    and "status_code r1 = 401"
    and "reauthenticate C (auth_token s) w1 = (t1, w1')"
    and "session_send C m url (auth_header authenticated t1)
           (map_option (heap s1) data') w1' = (r2, w2)"
    and "status_code r2 = 401"
    and "reauthenticate C t1 w2 = (t2, w2')"
    and "session_send C m url (auth_header authenticated t2)
           (map_option (heap s1) data') w2' = (r3, w3)"
    and "status_code r3 = 200"
  shows "http_call C m endpoint data authenticated True s =
     (Inr (json r3),
      s1\<lparr>auth_token := t2, world := w3,
         calls := calls s @
           [Request m url (auth_header authenticated (auth_token s))
              (map_option (heap s1) data') r1,
            Reauthenticate t1,
            Request m url (auth_header authenticated t1) (map_option (heap s1) data') r2,
            Reauthenticate t2,
            Request m url (auth_header authenticated t2) (map_option (heap s1) data') r3]\<rparr>)"
  using assms handle_on_behalf_of_frame [OF assms(2)]
  by (simp add: run_defs handle_errors_def)

theorem two_401_then_200_witness:
  "fst (http_call (scripted (answers [401, 401, 200]) ((@) ''new-'')) GET ''/balances'' None
          True True (start ENV_PRODUCTION None)) = Inr ''body''
   \<and> map status_code (responses_of (new_calls (start ENV_PRODUCTION None)
        (snd (http_call (scripted (answers [401, 401, 200]) ((@) ''new-'')) GET ''/balances'' None
               True True (start ENV_PRODUCTION None))))) = [401, 401, 200]
   \<and> reauth_tokens (new_calls (start ENV_PRODUCTION None)
        (snd (http_call (scripted (answers [401, 401, 200]) ((@) ''new-'')) GET ''/balances'' None
               True True (start ENV_PRODUCTION None)))) = [''new-t'', ''new-new-t'']
   \<and> sent_tokens (new_calls (start ENV_PRODUCTION None)
        (snd (http_call (scripted (answers [401, 401, 200]) ((@) ''new-'')) GET ''/balances'' None
               True True (start ENV_PRODUCTION None))))
       = [Some ''t'', Some ''new-t'', Some ''new-new-t'']"
proof -
  let ?C = "scripted (answers [401, 401, 200]) ((@) ''new-'')"
  let ?s = "start ENV_PRODUCTION None"
  let ?url = "''https://api.thecurrencycloud.com/balances''"
  have url: "build_url ?s ''/balances'' = Inr ?url"
    by (simp add: build_url_def environment_url_def ENVIRONMENT_URLS_def start_def)
  have obo: "handle_on_behalf_of None ?s = (None, ?s)"
    by (simp add: handle_on_behalf_of_def start_def)
  have r1: "session_send ?C GET ?url (auth_header True (auth_token ?s))
      (map_option (heap ?s) None) (world ?s) = (answers [401, 401, 200] 0, Suc 0)"
    by (simp add: session_send_def scripted_def start_def)
  have c1: "status_code (answers [401, 401, 200] 0) = 401"
    by (simp add: answers_def)
  have t1: "reauthenticate ?C (auth_token ?s) (Suc 0) = (''new-t'', Suc 0)"
    by (simp add: scripted_def start_def)
  have r2: "session_send ?C GET ?url (auth_header True ''new-t'')
      (map_option (heap ?s) None) (Suc 0) = (answers [401, 401, 200] (Suc 0), Suc (Suc 0))"
    by (simp add: session_send_def scripted_def)
  have c2: "status_code (answers [401, 401, 200] (Suc 0)) = 401"
    by (simp add: answers_def)
  have t2: "reauthenticate ?C ''new-t'' (Suc (Suc 0)) = (''new-new-t'', Suc (Suc 0))"
    by (simp add: scripted_def)
  have r3: "session_send ?C GET ?url (auth_header True ''new-new-t'')
      (map_option (heap ?s) None) (Suc (Suc 0))
        = (answers [401, 401, 200] (Suc (Suc 0)), Suc (Suc (Suc 0)))"
    by (simp add: session_send_def scripted_def)
  have c3: "status_code (answers [401, 401, 200] (Suc (Suc 0))) = 200"
    by (simp add: answers_def)
  from two_401_then_200 [OF url obo r1 c1 t1 r2 c2 t2 r3 c3]
  show ?thesis
    by (simp add: start_def new_calls_def answers_def auth_header_def)
qed

text \<open>
  C3 as stated fails for \<open>authenticated\<close> false: the responses are 401, 401 and 200 and the
  two re-authentications leave the tokens \<open>''new-t''\<close> and \<open>''new-new-t''\<close>, but no request
  carries a token, the two retried ones included.
\<close>

theorem two_401_then_200_unauthenticated_counterexample:
  "map status_code (responses_of (new_calls (start ENV_PRODUCTION None)
        (snd (http_call (scripted (answers [401, 401, 200]) ((@) ''new-'')) GET ''/balances'' None
               False True (start ENV_PRODUCTION None))))) = [401, 401, 200]
   \<and> reauth_tokens (new_calls (start ENV_PRODUCTION None)
        (snd (http_call (scripted (answers [401, 401, 200]) ((@) ''new-'')) GET ''/balances'' None
               False True (start ENV_PRODUCTION None)))) = [''new-t'', ''new-new-t'']
   \<and> sent_tokens (new_calls (start ENV_PRODUCTION None)
        (snd (http_call (scripted (answers [401, 401, 200]) ((@) ''new-'')) GET ''/balances'' None
               False True (start ENV_PRODUCTION None)))) = [None, None, None]
   \<and> sent_tokens (new_calls (start ENV_PRODUCTION None)
        (snd (http_call (scripted (answers [401, 401, 200]) ((@) ''new-'')) GET ''/balances'' None
               False True (start ENV_PRODUCTION None)))) ! 1 \<noteq> Some ''new-t''
   \<and> sent_tokens (new_calls (start ENV_PRODUCTION None)
        (snd (http_call (scripted (answers [401, 401, 200]) ((@) ''new-'')) GET ''/balances'' None
               False True (start ENV_PRODUCTION None)))) ! 2 \<noteq> Some ''new-new-t''"
  by (simp add: concrete_defs)

text \<open>
  C4.  In a call of \<^verbatim>\<open>get\<close> or \<^verbatim>\<open>post\<close> with \<open>retry\<close> false whose first request is answered
  401: that request is the only call made, there is no re-authentication (the token and
  the log show none), and the call raises \<open>AuthenticationError\<close> for that response.
\<close>

theorem single_401_without_retry:
  assumes "build_url s endpoint = Inr url"
    and "handle_on_behalf_of data s = (data', s1)"
    and "session_send C m url (auth_header authenticated (auth_token s))
           (map_option (heap s1) data') (world s) = (r1, w1)"
    and "status_code r1 = 401"
  shows "http_call C m endpoint data authenticated False s =
     (Inl (HttpError AuthenticationError (verb_of m) url data' r1),
      s1\<lparr>world := w1,
         calls := calls s @
           [Request m url (auth_header authenticated (auth_token s))
              (map_option (heap s1) data') r1]\<rparr>)"
  using assms handle_on_behalf_of_frame [OF assms(2)]
  by (simp add: run_defs handle_errors_def HTTP_CODE_TO_ERROR_def)

theorem single_401_without_retry_witness:
  "fst (http_call (scripted (answers [401, 200]) ((@) ''new-'')) POST ''/payments'' (Some 0)
          True False (start ENV_DEMONSTRATION None))
     = Inl (HttpError AuthenticationError ''post''
              ''https://devapi.thecurrencycloud.com/payments'' (Some 0) (answers [401, 200] 0))
   \<and> map status_code (responses_of (new_calls (start ENV_DEMONSTRATION None)
        (snd (http_call (scripted (answers [401, 200]) ((@) ''new-'')) POST ''/payments'' (Some 0)
               True False (start ENV_DEMONSTRATION None))))) = [401]
   \<and> reauth_tokens (new_calls (start ENV_DEMONSTRATION None)
        (snd (http_call (scripted (answers [401, 200]) ((@) ''new-'')) POST ''/payments'' (Some 0)
               True False (start ENV_DEMONSTRATION None)))) = []
   \<and> auth_token (snd (http_call (scripted (answers [401, 200]) ((@) ''new-'')) POST ''/payments''
        (Some 0) True False (start ENV_DEMONSTRATION None))) = ''t''"
proof -
  let ?C = "scripted (answers [401, 200]) ((@) ''new-'')"
  let ?s = "start ENV_DEMONSTRATION None"
  let ?url = "''https://devapi.thecurrencycloud.com/payments''"
  have url: "build_url ?s ''/payments'' = Inr ?url"
    by (simp add: build_url_def environment_url_def ENVIRONMENT_URLS_def start_def)
  have obo: "handle_on_behalf_of (Some 0) ?s = (Some 0, ?s)"
    by (simp add: handle_on_behalf_of_def start_def)
  have r1: "session_send ?C POST ?url (auth_header True (auth_token ?s))
      (map_option (heap ?s) (Some 0)) (world ?s) = (answers [401, 200] 0, Suc 0)"
    by (simp add: session_send_def scripted_def start_def)
  have c1: "status_code (answers [401, 200] 0) = 401"
    by (simp add: answers_def)
  from single_401_without_retry [OF url obo r1 c1]
  show ?thesis
    by (simp add: start_def new_calls_def answers_def auth_header_def verb_of_def)
qed

text \<open>
  C5.  For every endpoint, a call of \<^verbatim>\<open>get\<close> or \<^verbatim>\<open>post\<close> under the production, the
  demonstration or the UAT environment sends every request, and at least one, to the fixed
  base URL of that environment followed by the endpoint, and an error it raises names that
  URL.  Under any other environment the call raises \<open>RuntimeError\<close>, which is not one of
  the error kinds of the table, and it has called neither the session nor the
  re-authentication and has changed neither the store of parameters nor the token.
\<close>

theorem url_resolution:
  assumes "http_call C m endpoint data authenticated retry s = (result, s')"
  shows "(environment s = ENV_PRODUCTION \<longrightarrow>
            requests_go_to (''https://api.thecurrencycloud.com'' @ endpoint) result
              (new_calls s s'))
    \<and> (environment s = ENV_DEMONSTRATION \<longrightarrow>
            requests_go_to (''https://devapi.thecurrencycloud.com'' @ endpoint) result
              (new_calls s s'))
    \<and> (environment s = ENV_UAT \<longrightarrow>
            requests_go_to (''https://api-uat1.ccycloud.com'' @ endpoint) result
              (new_calls s s'))
    \<and> (\<forall>x. environment s = ENV_OTHER x \<longrightarrow>
            result = Inl (RuntimeError (ENV_OTHER x)) \<and> new_calls s s' = []
            \<and> heap s' = heap s \<and> auth_token s' = auth_token s \<and> world s' = world s)"
proof (cases "environment s")
  case ENV_PRODUCTION
  then have "ENVIRONMENT_URLS (environment s) = Some ''https://api.thecurrencycloud.com''"
    by (simp add: ENVIRONMENT_URLS_def)
  from http_call_requests_go_to [OF this assms] ENV_PRODUCTION show ?thesis by simp
next
  case ENV_DEMONSTRATION
  then have "ENVIRONMENT_URLS (environment s) = Some ''https://devapi.thecurrencycloud.com''"
    by (simp add: ENVIRONMENT_URLS_def)
  from http_call_requests_go_to [OF this assms] ENV_DEMONSTRATION show ?thesis by simp
next
  case ENV_UAT
  then have "ENVIRONMENT_URLS (environment s) = Some ''https://api-uat1.ccycloud.com''"
    by (simp add: ENVIRONMENT_URLS_def)
  from http_call_requests_go_to [OF this assms] ENV_UAT show ?thesis by simp
next
  case (ENV_OTHER x)
  then have "ENVIRONMENT_URLS (environment s) = None"
    by (simp add: ENVIRONMENT_URLS_def)
  from http_call_invalid [OF this, of C m endpoint data authenticated retry] assms ENV_OTHER
  show ?thesis by (simp add: new_calls_def)
qed

theorem url_resolution_witness:
  "urls_of (new_calls (start ENV_PRODUCTION None)
      (snd (http_call (scripted (answers [401, 200]) ((@) ''new-'')) GET ''/balances'' None
             True True (start ENV_PRODUCTION None))))
     = [''https://api.thecurrencycloud.com/balances'',
        ''https://api.thecurrencycloud.com/balances'']
   \<and> requests_go_to ''https://api.thecurrencycloud.com/balances''
        (fst (http_call (scripted (answers [401, 200]) ((@) ''new-'')) GET ''/balances'' None
               True True (start ENV_PRODUCTION None)))
        (new_calls (start ENV_PRODUCTION None)
          (snd (http_call (scripted (answers [401, 200]) ((@) ''new-'')) GET ''/balances'' None
                 True True (start ENV_PRODUCTION None))))
   \<and> fst (http_call (scripted (answers [401, 200]) ((@) ''new-'')) POST ''/payments'' (Some 0)
             True True (start (ENV_OTHER ''staging'') (Some ''acct'')))
     = Inl (RuntimeError (ENV_OTHER ''staging''))
   \<and> calls (snd (http_call (scripted (answers [401, 200]) ((@) ''new-'')) POST ''/payments''
        (Some 0) True True (start (ENV_OTHER ''staging'') (Some ''acct'')))) = []"
proof -
  let ?C = "scripted (answers [401, 200]) ((@) ''new-'')"
  let ?s = "start ENV_PRODUCTION None"
  let ?s' = "start (ENV_OTHER ''staging'') (Some ''acct'')"
  have valid: "http_call ?C GET ''/balances'' None True True ?s
      = (fst (http_call ?C GET ''/balances'' None True True ?s),
         snd (http_call ?C GET ''/balances'' None True True ?s))"
    by simp
  have invalid: "http_call ?C POST ''/payments'' (Some 0) True True ?s'
      = (fst (http_call ?C POST ''/payments'' (Some 0) True True ?s'),
         snd (http_call ?C POST ''/payments'' (Some 0) True True ?s'))"
    by simp
  have env: "environment ?s = ENV_PRODUCTION" "environment ?s' = ENV_OTHER ''staging''"
    "calls ?s' = []"
    by (simp_all add: start_def)
  have urls: "urls_of (new_calls ?s (snd (http_call ?C GET ''/balances'' None True True ?s)))
      = [''https://api.thecurrencycloud.com/balances'',
         ''https://api.thecurrencycloud.com/balances'']"
    by (simp add: concrete_defs)
  from url_resolution [OF valid] url_resolution [OF invalid] env urls
  show ?thesis
    by (simp add: new_calls_def)
qed

text \<open>
  C6, as amended.  In a call of \<^verbatim>\<open>get\<close> or \<^verbatim>\<open>post\<close> whose environment is one of the
  three, so that the URL resolves, every request, and there is at least one, is sent with
  these parameters.  When \<open>on_behalf_of\<close> is set and the caller's dictionary lacks the
  key: the caller's dictionary with the key added, the addition being made in the
  caller's own dictionary in the store.  When \<open>on_behalf_of\<close> is set and the caller passed
  \<^verbatim>\<open>None\<close>: a new dictionary that holds the key alone.  When the caller's dictionary has
  the key already: the caller's dictionary as it is, and the store is unchanged.  When
  \<open>on_behalf_of\<close> is not set: what the caller passed, and the store is unchanged.  The
  claim speaks of every call; under any other environment the method raises before it
  handles \<open>on_behalf_of\<close>.
\<close>

theorem on_behalf_of_injection:
  assumes "http_call C m endpoint data authenticated retry s = (result, s')"
    and "build_url s endpoint = Inr url"
  shows "(\<forall>v r. on_behalf_of s = Some v \<and> data = Some r \<and> heap s r ''on_behalf_of'' = None \<longrightarrow>
            set (params_of (new_calls s s')) = {Some ((heap s r)(''on_behalf_of'' \<mapsto> v))}
            \<and> fst (handle_on_behalf_of data s) = Some r
            \<and> heap s' = (heap s)(r := (heap s r)(''on_behalf_of'' \<mapsto> v))
            \<and> next_ref s' = next_ref s)
    \<and> (\<forall>v. on_behalf_of s = Some v \<and> data = None \<longrightarrow>
            set (params_of (new_calls s s')) = {Some [''on_behalf_of'' \<mapsto> v]}
            \<and> fst (handle_on_behalf_of data s) = Some (next_ref s)
            \<and> heap s' = (heap s)(next_ref s := [''on_behalf_of'' \<mapsto> v])
            \<and> next_ref s' = Suc (next_ref s))
    \<and> (\<forall>v r u. on_behalf_of s = Some v \<and> data = Some r \<and> heap s r ''on_behalf_of'' = Some u \<longrightarrow>
            set (params_of (new_calls s s')) = {Some (heap s r)}
            \<and> fst (handle_on_behalf_of data s) = Some r
            \<and> heap s' = heap s \<and> next_ref s' = next_ref s)
    \<and> (on_behalf_of s = None \<longrightarrow>
            set (params_of (new_calls s s')) = {map_option (heap s) data}
            \<and> fst (handle_on_behalf_of data s) = data
            \<and> heap s' = heap s \<and> next_ref s' = next_ref s)"
proof -
  obtain data' s1 where obo: "handle_on_behalf_of data s = (data', s1)"
    by (cases "handle_on_behalf_of data s")
  note run = http_call_params [OF assms(2) obo assms(1)]
  have set_new: "\<forall>v r. on_behalf_of s = Some v \<and> data = Some r \<and> heap s r ''on_behalf_of'' = None \<longrightarrow>
            set (params_of (new_calls s s')) = {Some ((heap s r)(''on_behalf_of'' \<mapsto> v))}
            \<and> fst (handle_on_behalf_of data s) = Some r
            \<and> heap s' = (heap s)(r := (heap s r)(''on_behalf_of'' \<mapsto> v))
            \<and> next_ref s' = next_ref s"
  proof (intro allI impI, elim conjE)
    fix v r
    assume "on_behalf_of s = Some v" "data = Some r" "heap s r ''on_behalf_of'' = None"
    with obo have "data' = Some r"
      "s1 = s\<lparr>heap := (heap s)(r := (heap s r)(''on_behalf_of'' \<mapsto> v))\<rparr>"
      by (auto simp: handle_on_behalf_of_def)
    with run obo
    show "set (params_of (new_calls s s')) = {Some ((heap s r)(''on_behalf_of'' \<mapsto> v))}
      \<and> fst (handle_on_behalf_of data s) = Some r
      \<and> heap s' = (heap s)(r := (heap s r)(''on_behalf_of'' \<mapsto> v))
      \<and> next_ref s' = next_ref s"
      by simp
  qed
  have created: "\<forall>v. on_behalf_of s = Some v \<and> data = None \<longrightarrow>
            set (params_of (new_calls s s')) = {Some [''on_behalf_of'' \<mapsto> v]}
            \<and> fst (handle_on_behalf_of data s) = Some (next_ref s)
            \<and> heap s' = (heap s)(next_ref s := [''on_behalf_of'' \<mapsto> v])
            \<and> next_ref s' = Suc (next_ref s)"
  proof (intro allI impI, elim conjE)
    fix v
    assume "on_behalf_of s = Some v" "data = None"
    with obo have "data' = Some (next_ref s)"
      "heap s1 = (heap s)(next_ref s := [''on_behalf_of'' \<mapsto> v])"
      "next_ref s1 = Suc (next_ref s)"
      by (auto simp: handle_on_behalf_of_def new_dict_def)
    with run obo
    show "set (params_of (new_calls s s')) = {Some [''on_behalf_of'' \<mapsto> v]}
      \<and> fst (handle_on_behalf_of data s) = Some (next_ref s)
      \<and> heap s' = (heap s)(next_ref s := [''on_behalf_of'' \<mapsto> v])
      \<and> next_ref s' = Suc (next_ref s)"
      by simp
  qed
  have kept: "\<forall>v r u. on_behalf_of s = Some v \<and> data = Some r
            \<and> heap s r ''on_behalf_of'' = Some u \<longrightarrow>
            set (params_of (new_calls s s')) = {Some (heap s r)}
            \<and> fst (handle_on_behalf_of data s) = Some r
            \<and> heap s' = heap s \<and> next_ref s' = next_ref s"
  proof (intro allI impI, elim conjE)
    fix v r u
    assume "on_behalf_of s = Some v" "data = Some r" "heap s r ''on_behalf_of'' = Some u"
    with obo have "data' = Some r" "s1 = s"
      by (auto simp: handle_on_behalf_of_def)
    with run obo
    show "set (params_of (new_calls s s')) = {Some (heap s r)}
      \<and> fst (handle_on_behalf_of data s) = Some r
      \<and> heap s' = heap s \<and> next_ref s' = next_ref s"
      by simp
  qed
  have unset: "on_behalf_of s = None \<longrightarrow>
            set (params_of (new_calls s s')) = {map_option (heap s) data}
            \<and> fst (handle_on_behalf_of data s) = data
            \<and> heap s' = heap s \<and> next_ref s' = next_ref s"
  proof
    assume "on_behalf_of s = None"
    with obo have "data' = data" "s1 = s"
      by (auto simp: handle_on_behalf_of_def)
    with run obo
    show "set (params_of (new_calls s s')) = {map_option (heap s) data}
      \<and> fst (handle_on_behalf_of data s) = data
      \<and> heap s' = heap s \<and> next_ref s' = next_ref s"
      by simp
  qed
  from set_new created kept unset show ?thesis by (intro conjI)
qed

theorem on_behalf_of_injection_witness:
  "params_of (new_calls (start ENV_UAT (Some ''acct''))
      (snd (http_call (scripted (answers [200]) ((@) ''new-'')) POST ''/payments'' (Some 0)
             True True (start ENV_UAT (Some ''acct'')))))
     = [Some [''on_behalf_of'' \<mapsto> ''acct'']]
   \<and> heap (snd (http_call (scripted (answers [200]) ((@) ''new-'')) POST ''/payments'' (Some 0)
             True True (start ENV_UAT (Some ''acct'')))) 0 ''on_behalf_of'' = Some ''acct''
   \<and> heap (start ENV_UAT (Some ''acct'')) 0 ''on_behalf_of'' = None"
proof -
  let ?C = "scripted (answers [200]) ((@) ''new-'')"
  let ?s = "start ENV_UAT (Some ''acct'')"
  have call: "http_call ?C POST ''/payments'' (Some 0) True True ?s
      = (fst (http_call ?C POST ''/payments'' (Some 0) True True ?s),
         snd (http_call ?C POST ''/payments'' (Some 0) True True ?s))"
    by simp
  have url: "build_url ?s ''/payments'' = Inr ''https://api-uat1.ccycloud.com/payments''"
    by (simp add: build_url_def environment_url_def ENVIRONMENT_URLS_def start_def)
  have pre: "on_behalf_of ?s = Some ''acct''" "heap ?s 0 ''on_behalf_of'' = None"
    by (simp_all add: start_def)
  have params: "params_of (new_calls ?s (snd (http_call ?C POST ''/payments'' (Some 0) True True ?s)))
      = [Some [''on_behalf_of'' \<mapsto> ''acct'']]"
    by (simp add: concrete_defs)
  from on_behalf_of_injection [OF call url] pre
  have "heap (snd (http_call ?C POST ''/payments'' (Some 0) True True ?s))
      = (heap ?s)(0 := (heap ?s 0)(''on_behalf_of'' \<mapsto> ''acct''))"
    by simp
  with params pre show ?thesis by simp
qed

text \<open>
  C6 as stated fails under an environment that is none of the three: \<open>on_behalf_of\<close> is
  set and the caller's dictionary, at reference 0, lacks the key, and the call raises
  \<open>RuntimeError\<close>, sends no request, and leaves the caller's dictionary without the key.
\<close>

theorem on_behalf_of_invalid_environment_counterexample:
  "on_behalf_of (start (ENV_OTHER ''staging'') (Some ''acct'')) = Some ''acct''
   \<and> heap (start (ENV_OTHER ''staging'') (Some ''acct'')) 0 ''on_behalf_of'' = None
   \<and> fst (http_call (scripted (answers [200]) ((@) ''new-'')) POST ''/payments'' (Some 0)
             True True (start (ENV_OTHER ''staging'') (Some ''acct'')))
     = Inl (RuntimeError (ENV_OTHER ''staging''))
   \<and> params_of (new_calls (start (ENV_OTHER ''staging'') (Some ''acct''))
        (snd (http_call (scripted (answers [200]) ((@) ''new-'')) POST ''/payments'' (Some 0)
               True True (start (ENV_OTHER ''staging'') (Some ''acct''))))) = []
   \<and> heap (snd (http_call (scripted (answers [200]) ((@) ''new-'')) POST ''/payments'' (Some 0)
             True True (start (ENV_OTHER ''staging'') (Some ''acct'')))) 0 ''on_behalf_of''
     = None
   \<and> heap (snd (http_call (scripted (answers [200]) ((@) ''new-'')) POST ''/payments'' (Some 0)
             True True (start (ENV_OTHER ''staging'') (Some ''acct'')))) 0 ''on_behalf_of''
     \<noteq> Some ''acct''"
  by (simp add: concrete_defs)

text \<open>
  C7.  In every call of \<^verbatim>\<open>get\<close> or \<^verbatim>\<open>post\<close>, each request goes out with the headers for
  the token the configuration holds at that moment: when \<open>authenticated\<close> is true the
  single header \<^verbatim>\<open>X-Auth-Token\<close> with that token, and when it is false no header.
\<close>

theorem request_headers:
  assumes "http_call C m endpoint data authenticated retry s = (result, s')"
  shows "headers_current authenticated (auth_token s) (new_calls s s')
    \<and> (authenticated \<longrightarrow>
          (\<forall>h\<in>set (headers_of (new_calls s s')). dom h = {''X-Auth-Token''}))
    \<and> (\<not> authenticated \<longrightarrow>
          (\<forall>h\<in>set (headers_of (new_calls s s')). h = Map.empty))"
  using http_call_headers_current [OF assms]
    headers_current_authenticated [of "auth_token s" "new_calls s s'"]
    headers_current_unauthenticated [of "auth_token s" "new_calls s s'"]
  by (cases authenticated) auto

theorem request_headers_witness:
  "headers_of (new_calls (start ENV_UAT None)
      (snd (http_call (scripted (answers [401, 200]) ((@) ''new-'')) GET ''/rates'' None
             True True (start ENV_UAT None))))
     = [[''X-Auth-Token'' \<mapsto> ''t''], [''X-Auth-Token'' \<mapsto> ''new-t'']]
   \<and> headers_current True ''t'' (new_calls (start ENV_UAT None)
      (snd (http_call (scripted (answers [401, 200]) ((@) ''new-'')) GET ''/rates'' None
             True True (start ENV_UAT None))))"
proof -
  let ?C = "scripted (answers [401, 200]) ((@) ''new-'')"
  let ?s = "start ENV_UAT None"
  have call: "http_call ?C GET ''/rates'' None True True ?s
      = (fst (http_call ?C GET ''/rates'' None True True ?s),
         snd (http_call ?C GET ''/rates'' None True True ?s))"
    by simp
  have token: "auth_token ?s = ''t''"
    by (simp add: start_def)
  have headers: "headers_of (new_calls ?s (snd (http_call ?C GET ''/rates'' None True True ?s)))
      = [[''X-Auth-Token'' \<mapsto> ''t''], [''X-Auth-Token'' \<mapsto> ''new-t'']]"
    by (simp add: concrete_defs)
  from request_headers [OF call] token headers show ?thesis
    by simp
qed

text \<open>
  C8.  In a call of \<^verbatim>\<open>get\<close> or \<^verbatim>\<open>post\<close> with \<open>retry\<close> true whose requests are all answered
  401: exactly three requests are issued and exactly three re-authentications made, one
  after each 401; the third is the last call of the log, so no request uses the token it
  leaves; and the call raises \<open>AuthenticationError\<close> for the third response.
\<close>

theorem three_401_three_reauthentications:
  assumes "build_url s endpoint = Inr url"
    and "handle_on_behalf_of data s = (data', s1)"
    and "session_send C m url (auth_header authenticated (auth_token s))
           (map_option (heap s1) data') (world s) = (r1, w1)"
    and "status_code r1 = 401"
    and "reauthenticate C (auth_token s) w1 = (t1, w1')"
    and "session_send C m url (auth_header authenticated t1)
           (map_option (heap s1) data') w1' = (r2, w2)"
    and "status_code r2 = 401"
    and "reauthenticate C t1 w2 = (t2, w2')"
    and "session_send C m url (auth_header authenticated t2)
           (map_option (heap s1) data') w2' = (r3, w3)"
    and "status_code r3 = 401"
    and "reauthenticate C t2 w3 = (t3, w3')"
  shows "http_call C m endpoint data authenticated True s =
     (Inl (HttpError AuthenticationError (verb_of m) url data' r3),
      s1\<lparr>auth_token := t3, world := w3',
         calls := calls s @
           [Request m url (auth_header authenticated (auth_token s))
              (map_option (heap s1) data') r1,
            Reauthenticate t1,
            Request m url (auth_header authenticated t1) (map_option (heap s1) data') r2,
            Reauthenticate t2,
            Request m url (auth_header authenticated t2) (map_option (heap s1) data') r3,
            Reauthenticate t3]\<rparr>)"
  using assms handle_on_behalf_of_frame [OF assms(2)]
  by (simp add: run_defs handle_errors_def HTTP_CODE_TO_ERROR_def)

theorem three_401_three_reauthentications_witness:
  "fst (http_call (scripted (answers [401, 401, 401, 401]) ((@) ''new-'')) GET ''/rates'' None
          True True (start ENV_UAT None))
     = Inl (HttpError AuthenticationError ''get'' ''https://api-uat1.ccycloud.com/rates'' None
              (answers [401, 401, 401, 401] 2))
   \<and> map status_code (responses_of (new_calls (start ENV_UAT None)
        (snd (http_call (scripted (answers [401, 401, 401, 401]) ((@) ''new-'')) GET ''/rates'' None
               True True (start ENV_UAT None))))) = [401, 401, 401]
   \<and> reauth_tokens (new_calls (start ENV_UAT None)
        (snd (http_call (scripted (answers [401, 401, 401, 401]) ((@) ''new-'')) GET ''/rates'' None
               True True (start ENV_UAT None)))) = [''new-t'', ''new-new-t'', ''new-new-new-t'']
   \<and> sent_tokens (new_calls (start ENV_UAT None)
        (snd (http_call (scripted (answers [401, 401, 401, 401]) ((@) ''new-'')) GET ''/rates'' None
               True True (start ENV_UAT None)))) = [Some ''t'', Some ''new-t'', Some ''new-new-t'']
   \<and> auth_token (snd (http_call (scripted (answers [401, 401, 401, 401]) ((@) ''new-'')) GET
        ''/rates'' None True True (start ENV_UAT None))) = ''new-new-new-t''"
proof -
  let ?C = "scripted (answers [401, 401, 401, 401]) ((@) ''new-'')"
  let ?s = "start ENV_UAT None"
  let ?url = "''https://api-uat1.ccycloud.com/rates''"
  have url: "build_url ?s ''/rates'' = Inr ?url"
    by (simp add: build_url_def environment_url_def ENVIRONMENT_URLS_def start_def)
  have obo: "handle_on_behalf_of None ?s = (None, ?s)"
    by (simp add: handle_on_behalf_of_def start_def)
  have r1: "session_send ?C GET ?url (auth_header True (auth_token ?s))
      (map_option (heap ?s) None) (world ?s) = (answers [401, 401, 401, 401] 0, Suc 0)"
    by (simp add: session_send_def scripted_def start_def)
  have c1: "status_code (answers [401, 401, 401, 401] 0) = 401"
    by (simp add: answers_def)
  have t1: "reauthenticate ?C (auth_token ?s) (Suc 0) = (''new-t'', Suc 0)"
    by (simp add: scripted_def start_def)
  have r2: "session_send ?C GET ?url (auth_header True ''new-t'')
      (map_option (heap ?s) None) (Suc 0) = (answers [401, 401, 401, 401] (Suc 0), Suc (Suc 0))"
    by (simp add: session_send_def scripted_def)
  have c2: "status_code (answers [401, 401, 401, 401] (Suc 0)) = 401"
    by (simp add: answers_def)
  have t2: "reauthenticate ?C ''new-t'' (Suc (Suc 0)) = (''new-new-t'', Suc (Suc 0))"
    by (simp add: scripted_def)
  have r3: "session_send ?C GET ?url (auth_header True ''new-new-t'')
      (map_option (heap ?s) None) (Suc (Suc 0))
        = (answers [401, 401, 401, 401] (Suc (Suc 0)), Suc (Suc (Suc 0)))"
    by (simp add: session_send_def scripted_def)
  have c3: "status_code (answers [401, 401, 401, 401] (Suc (Suc 0))) = 401"
    by (simp add: answers_def)
  have t3: "reauthenticate ?C ''new-new-t'' (Suc (Suc (Suc 0)))
      = (''new-new-new-t'', Suc (Suc (Suc 0)))"
    by (simp add: scripted_def)
  from three_401_three_reauthentications [OF url obo r1 c1 t1 r2 c2 t2 r3 c3 t3]
  show ?thesis
    by (simp add: start_def new_calls_def answers_def auth_header_def verb_of_def)
qed

text \<open>
  C9.  In a call of \<^verbatim>\<open>get\<close> or \<^verbatim>\<open>post\<close> with \<open>authenticated\<close> false and \<open>retry\<close> true that
  gets past the resolution of the URL: every request, retried ones included, goes out
  with no header; each response of 401 is followed by a re-authentication; the token of
  the configuration at the end is the one the last re-authentication left; and when the
  first response is 401 there is a re-authentication, which has replaced the token, and a
  second request.
\<close>

theorem unauthenticated_retry:
  assumes "http_call C m endpoint data False True s = (result, s')"
    and "build_url s endpoint = Inr url"
  shows "(\<forall>h\<in>set (headers_of (new_calls s s')). h = Map.empty)
    \<and> length (reauth_tokens (new_calls s s'))
        = length (filter (\<lambda>r. status_code r = 401) (responses_of (new_calls s s')))
    \<and> auth_token s' = last (auth_token s # reauth_tokens (new_calls s s'))
    \<and> (status_code (hd (responses_of (new_calls s s'))) = 401 \<longrightarrow>
          reauth_tokens (new_calls s s') \<noteq> []
          \<and> auth_token s' = last (reauth_tokens (new_calls s s'))
          \<and> 2 \<le> length (responses_of (new_calls s s')))"
proof -
  obtain data' s1 where obo: "handle_on_behalf_of data s = (data', s1)"
    by (cases "handle_on_behalf_of data s")
  from http_call_run [OF assms(2) obo assms(1)] obtain es where es:
    "calls s' = calls s @ es"
    "loop_log True False m url (map_option (heap s1) data') (Suc (Suc (Suc 0))) (auth_token s) es"
    "auth_token s' = last (auth_token s # reauth_tokens es)"
    by (auto simp: numeral_3_eq_3)
  have new: "new_calls s s' = es" by (rule new_calls_append [OF es(1)])
  have "\<forall>h\<in>set (headers_of es). h = Map.empty"
    using headers_current_unauthenticated [OF loop_log_headers_current [OF es(2)]] by blast
  moreover have "length (reauth_tokens es)
      = length (filter (\<lambda>r. status_code r = 401) (responses_of es))"
    using loop_log_reauth_count [OF es(2)] by simp
  moreover have "status_code (hd (responses_of es)) = 401 \<longrightarrow>
      reauth_tokens es \<noteq> [] \<and> auth_token s' = last (reauth_tokens es)
      \<and> 2 \<le> length (responses_of es)"
    using loop_log_first_401 [OF es(2)] es(3) by simp
  ultimately show ?thesis
    unfolding new using es(3) by blast
qed

theorem unauthenticated_retry_witness:
  "headers_of (new_calls (start ENV_UAT None)
      (snd (http_call (scripted (answers [401, 200]) ((@) ''new-'')) GET ''/rates'' None
             False True (start ENV_UAT None))))
     = [Map.empty, Map.empty]
   \<and> reauth_tokens (new_calls (start ENV_UAT None)
      (snd (http_call (scripted (answers [401, 200]) ((@) ''new-'')) GET ''/rates'' None
             False True (start ENV_UAT None)))) = [''new-t'']
   \<and> auth_token (snd (http_call (scripted (answers [401, 200]) ((@) ''new-'')) GET ''/rates'' None
             False True (start ENV_UAT None))) = ''new-t''"
proof -
  let ?C = "scripted (answers [401, 200]) ((@) ''new-'')"
  let ?s = "start ENV_UAT None"
  have call: "http_call ?C GET ''/rates'' None False True ?s
      = (fst (http_call ?C GET ''/rates'' None False True ?s),
         snd (http_call ?C GET ''/rates'' None False True ?s))"
    by simp
  have url: "build_url ?s ''/rates'' = Inr ''https://api-uat1.ccycloud.com/rates''"
    by (simp add: build_url_def environment_url_def ENVIRONMENT_URLS_def start_def)
  have log: "new_calls ?s (snd (http_call ?C GET ''/rates'' None False True ?s))
      = [Request GET ''https://api-uat1.ccycloud.com/rates'' Map.empty None (answers [401, 200] 0),
         Reauthenticate ''new-t'',
         Request GET ''https://api-uat1.ccycloud.com/rates'' Map.empty None
           (answers [401, 200] (Suc 0))]"
    by (simp add: concrete_defs)
  have first: "status_code (answers [401, 200] 0) = 401"
    by (simp add: answers_def)
  from unauthenticated_retry [OF call url] first show ?thesis
    unfolding log by simp
qed

text \<open>
  C10.  When the environment is none of the three, a call of \<^verbatim>\<open>get\<close> or \<^verbatim>\<open>post\<close> raises
  \<open>RuntimeError\<close> and leaves the whole state as it was: the store, so the caller's
  dictionary, the token, the state behind the session and the log of calls.  The method
  returns at the failed resolution of the URL, before the handling of \<open>on_behalf_of\<close>, the
  building of the headers and the loop.
\<close>

theorem invalid_environment_changes_nothing:
  assumes "environment s = ENV_OTHER x"
  shows "http_call C m endpoint data authenticated retry s = (Inl (RuntimeError (ENV_OTHER x)), s)"
proof -
  have "ENVIRONMENT_URLS (environment s) = None"
    using assms by (simp add: ENVIRONMENT_URLS_def)
  from http_call_invalid [OF this] assms show ?thesis by simp
qed

theorem invalid_environment_changes_nothing_witness:
  "http_call (scripted (answers [200]) ((@) ''new-'')) POST ''/payments'' (Some 0) True True
      (start (ENV_OTHER ''staging'') (Some ''acct''))
     = (Inl (RuntimeError (ENV_OTHER ''staging'')), start (ENV_OTHER ''staging'') (Some ''acct''))
   \<and> heap (start (ENV_OTHER ''staging'') (Some ''acct'')) 0 ''on_behalf_of'' = None"
proof -
  have env: "environment (start (ENV_OTHER ''staging'') (Some ''acct'')) = ENV_OTHER ''staging''"
    by (simp add: start_def)
  have "heap (start (ENV_OTHER ''staging'') (Some ''acct'')) 0 ''on_behalf_of'' = None"
    by (simp add: start_def)
  with invalid_environment_changes_nothing [OF env] show ?thesis
    by simp
qed

end
